theory Spec2Isabelle
  imports Complex_Main "HOL-Library.AList" "HOL-Library.Char_ord" "HOL-Library.List_Lexorder"
begin

section \<open>NIPI packet capture engine (src/capture/packet\_engine.py)\<close>

text \<open>
  A shallow embedding of class \<open>PacketCaptureEngine\<close>. Python's unbounded integers that
  only count upwards are \<open>nat\<close>; a \<open>datetime\<close> is the number of microseconds since the
  epoch (\<open>int\<close>), so that a \<open>timedelta\<close> is a difference of two of them and
  \<open>total_seconds()\<close> divides by one million. The result of that division is a Python
  float in the source and an exact rational here. Strings compare as Python compares
  \<open>str\<close>: lexicographically, character by character.
\<close>

subsection \<open>Exceptions and the log\<close>

datatype py_exception = TypeError | SniffError | NotAContextManager

datatype log_level = INFO | WARNING | ERROR

datatype log_entry =
    Log log_level string
  | LogExc log_level string py_exception

subsection \<open>The host: interfaces, the capture source\<close>

text \<open>
  What the engine asks of scapy and psutil. \<open>get_if_list\<close> is \<open>None\<close> when scapy's
  \<open>get_if_list()\<close> raises; \<open>net_if_stats\<close> is the result of
  \<open>psutil.net_if_stats().get(interface)\<close>; \<open>sniff_opens\<close> says whether \<open>sniff\<close> can open
  the named interface.
\<close>

datatype if_probe = ProbeRaises | NoStats | IfStats bool

record host =
  get_if_list :: "string list option"
  net_if_stats :: "string \<Rightarrow> if_probe"
  sniff_opens :: "string \<Rightarrow> bool"

definition get_available_interfaces :: "host \<Rightarrow> string list" where
  "get_available_interfaces hst = (case get_if_list hst of None \<Rightarrow> [] | Some ifs \<Rightarrow> ifs)"

definition loopback_names :: "string list" where
  "loopback_names = [''lo'', ''localhost'']"

text \<open>The first loop of \<open>auto_select_interface\<close>: \<open>Some i\<close> when it returns \<open>i\<close>.\<close>

fun first_active :: "(string \<Rightarrow> if_probe) \<Rightarrow> string list \<Rightarrow> string option" where
  "first_active probe [] = None"
| "first_active probe (i # rest) =
     (if i \<in> set loopback_names then first_active probe rest
      else (case probe i of
              ProbeRaises \<Rightarrow> first_active probe rest
            | NoStats \<Rightarrow> first_active probe rest
            | IfStats isup \<Rightarrow> if isup then Some i else first_active probe rest))"

text \<open>The second loop: the first name that is not a loopback name.\<close>

fun first_non_loopback :: "string list \<Rightarrow> string option" where
  "first_non_loopback [] = None"
| "first_non_loopback (i # rest) =
     (if i \<notin> set loopback_names then Some i else first_non_loopback rest)"

definition auto_select_interface :: "host \<Rightarrow> string" where
  "auto_select_interface hst =
     (let interfaces = get_available_interfaces hst in
      case first_active (net_if_stats hst) interfaces of
        Some i \<Rightarrow> i
      | None \<Rightarrow>
         (case first_non_loopback interfaces of
            Some i \<Rightarrow> i
          | None \<Rightarrow> (case interfaces of [] \<Rightarrow> ''eth0'' | i # _ \<Rightarrow> i)))"

subsection \<open>Packets and packet records\<close>

text \<open>
  A scapy packet, as far as the engine looks at it: its length, the \<open>sniffed_on\<close>
  attribute when it has one, and the layers that \<open>X in packet\<close> finds.
\<close>

record ip_layer =
  ip_src :: string
  ip_dst :: string
  ip_proto :: nat
  ip_ttl :: nat
  ip_payload_len :: nat

record packet =
  pkt_len :: nat
  pkt_sniffed_on :: "string option"
  pkt_ether :: "(string \<times> string) option"
  pkt_ip :: "ip_layer option"
  pkt_ipv6 :: "ip_layer option"
  pkt_tcp :: "(nat \<times> nat \<times> string) option"
  pkt_udp :: "(nat \<times> nat) option"
  pkt_icmp :: bool

type_synonym time = int

record packet_info =
  pi_timestamp :: time
  pi_packet_size :: nat
  pi_interface :: string
  pi_src_mac :: "string option"
  pi_dst_mac :: "string option"
  pi_src_ip :: string
  pi_dst_ip :: string
  pi_protocol :: nat
  pi_ttl :: nat
  pi_payload_size :: nat
  pi_src_port :: "nat option"
  pi_dst_port :: "nat option"
  pi_protocol_name :: string
  pi_flags :: string

definition extract_packet_info :: "time \<Rightarrow> packet \<Rightarrow> packet_info option" where
  "extract_packet_info now p =
     (case (case pkt_ip p of Some l \<Rightarrow> Some l | None \<Rightarrow> pkt_ipv6 p) of
        None \<Rightarrow> None
      | Some l \<Rightarrow>
          (let (sport, dport, pname, flags) =
                 (case pkt_tcp p of
                    Some (sp, dp, fl) \<Rightarrow> (Some sp, Some dp, ''TCP'', fl)
                  | None \<Rightarrow>
                     (case pkt_udp p of
                        Some (sp, dp) \<Rightarrow> (Some sp, Some dp, ''UDP'', '''')
                      | None \<Rightarrow>
                          if pkt_icmp p then (None, None, ''ICMP'', '''')
                          else (None, None, ''OTHER'', '''')))
           in Some \<lparr> pi_timestamp = now,
                     pi_packet_size = pkt_len p,
                     pi_interface = (case pkt_sniffed_on p of None \<Rightarrow> ''unknown'' | Some i \<Rightarrow> i),
                     pi_src_mac = map_option fst (pkt_ether p),
                     pi_dst_mac = map_option snd (pkt_ether p),
                     pi_src_ip = ip_src l,
                     pi_dst_ip = ip_dst l,
                     pi_protocol = ip_proto l,
                     pi_ttl = ip_ttl l,
                     pi_payload_size = ip_payload_len l,
                     pi_src_port = sport,
                     pi_dst_port = dport,
                     pi_protocol_name = pname,
                     pi_flags = flags \<rparr>))"

subsection \<open>Flow identifiers\<close>

text \<open>Python's \<open>str(n)\<close> for a non-negative integer, and the f-string rendering of a port.\<close>

definition digit_char :: "nat \<Rightarrow> char" where
  "digit_char d = char_of (48 + d)"

fun str_nat :: "nat \<Rightarrow> string" where
  "str_nat n = (if n < 10 then [digit_char n] else str_nat (n div 10) @ [digit_char (n mod 10)])"

definition str_port :: "nat option \<Rightarrow> string" where
  "str_port p = (case p of None \<Rightarrow> ''None'' | Some n \<Rightarrow> str_nat n)"

text \<open>\<open>a < b\<close> on two ports: Python raises \<open>TypeError\<close> when one of them is \<open>None\<close>.\<close>

definition port_less :: "nat option \<Rightarrow> nat option \<Rightarrow> py_exception + bool" where
  "port_less a b = (case (a, b) of (Some x, Some y) \<Rightarrow> Inr (x < y) | _ \<Rightarrow> Inl TypeError)"

definition flow_key :: "string \<Rightarrow> nat option \<Rightarrow> string \<Rightarrow> nat option \<Rightarrow> string \<Rightarrow> string" where
  "flow_key ip1 port1 ip2 port2 protocol =
     ip1 @ '':'' @ str_port port1 @ ''-'' @ ip2 @ '':'' @ str_port port2 @ ''-'' @ protocol"

text \<open>
  \<open>_create_flow_id\<close>. The digest \<open>hashlib.md5(s.encode()).hexdigest()\<close> is the
  parameter \<open>md5\<close>. A packet record made by \<open>extract_packet_info\<close> has every key that
  \<open>.get\<close> asks for, so the defaults of \<open>.get\<close> never apply: a port-less record yields
  \<open>None\<close>, not \<open>0\<close>. The condition is evaluated left to right with Python's
  short-circuit \<open>or\<close> and \<open>and\<close>.
\<close>

definition create_flow_id :: "(string \<Rightarrow> string) \<Rightarrow> packet_info \<Rightarrow> py_exception + string" where
  "create_flow_id md5 info =
     (let src_ip = pi_src_ip info; dst_ip = pi_dst_ip info;
          src_port = pi_src_port info; dst_port = pi_dst_port info;
          protocol = pi_protocol_name info;
          forward = flow_key src_ip src_port dst_ip dst_port protocol;
          backward = flow_key dst_ip dst_port src_ip src_port protocol
      in if src_ip < dst_ip then Inr (md5 forward)
         else if src_ip = dst_ip then
           (case port_less src_port dst_port of
              Inl e \<Rightarrow> Inl e
            | Inr lt \<Rightarrow> if lt then Inr (md5 forward) else Inr (md5 backward))
         else Inr (md5 backward))"

text \<open>
  Two packet records are the two directions of one conversation when source and
  destination address and port are exchanged and the protocol name is the same. Every
  other field (time stamp, size, flags) is free.
\<close>

definition opposite_directions :: "packet_info \<Rightarrow> packet_info \<Rightarrow> bool" where
  "opposite_directions p q \<longleftrightarrow>
     pi_src_ip q = pi_dst_ip p \<and> pi_dst_ip q = pi_src_ip p \<and>
     pi_src_port q = pi_dst_port p \<and> pi_dst_port q = pi_src_port p \<and>
     pi_protocol_name q = pi_protocol_name p"

subsection \<open>The engine\<close>

record flow =
  fl_session_id :: string
  fl_src_ip :: string
  fl_dst_ip :: string
  fl_src_port :: "nat option"
  fl_dst_port :: "nat option"
  fl_protocol :: string
  fl_start_time :: time
  fl_last_seen :: time
  fl_packet_count :: nat
  fl_bytes_transferred :: nat
  fl_status :: string

text \<open>Rows of the tables \<open>packet_captures\<close> and \<open>flow_sessions\<close> (database/models.py).\<close>

record packet_capture =
  pc_timestamp :: time
  pc_src_ip :: string
  pc_dst_ip :: string
  pc_src_port :: "nat option"
  pc_dst_port :: "nat option"
  pc_protocol :: string
  pc_packet_size :: nat
  pc_ttl :: nat
  pc_flags :: string
  pc_payload_size :: nat
  pc_interface :: string

record flow_session =
  fs_session_id :: string
  fs_src_ip :: string
  fs_dst_ip :: string
  fs_src_port :: "nat option"
  fs_dst_port :: "nat option"
  fs_protocol :: string
  fs_start_time :: time
  fs_end_time :: time
  fs_duration :: rat
  fs_packet_count :: nat
  fs_bytes_transferred :: nat
  fs_status :: string

datatype thread_target = ProcessPackets | CapturePackets string "string option"

datatype thread = Thread (target: thread_target) (daemon: bool)

record stats =
  packets_captured :: nat
  packets_processed :: nat
  packets_dropped :: nat
  bytes_captured :: nat
  start_time :: "time option"

text \<open>
  The fields of a \<open>PacketCaptureEngine\<close>, and with them what its methods write outside
  the object: the log and the two database tables. \<open>active_flows\<close> is a Python dict,
  here an association list in insertion order; \<open>AList.update\<close> is \<open>d[k] = v\<close> and
  \<open>AList.delete\<close> is \<open>del d[k]\<close>.
\<close>

record engine =
  is_running :: bool
  capture_thread :: "thread option"
  processor_thread :: "thread option"
  packet_queue :: "packet list"
  stats :: stats
  active_flows :: "(string \<times> flow) list"
  flow_timeout :: nat
  logged :: "log_entry list"
  packet_captures :: "packet_capture list"
  flow_sessions :: "flow_session list"

definition queue_maxsize :: nat where
  "queue_maxsize = 10000"

definition init_engine :: engine where
  "init_engine =
     \<lparr> is_running = False, capture_thread = None, processor_thread = None,
       packet_queue = [],
       stats = \<lparr> packets_captured = 0, packets_processed = 0, packets_dropped = 0,
                 bytes_captured = 0, start_time = None \<rparr>,
       active_flows = [], flow_timeout = 300,
       logged = [], packet_captures = [], flow_sessions = [] \<rparr>"

definition log_msg :: "log_entry \<Rightarrow> engine \<Rightarrow> engine" where
  "log_msg entry w = w \<lparr> logged := logged w @ [entry] \<rparr>"

subsection \<open>Start and stop\<close>

text \<open>
  \<open>start_capture\<close> has no \<open>raise\<close> and calls nothing that raises past it, so the
  result is \<open>Inr\<close> of the new state on every path; \<open>Inl\<close> would be an exception
  reaching the caller.
\<close>

definition start_capture ::
  "host \<Rightarrow> time \<Rightarrow> string option \<Rightarrow> string option \<Rightarrow> engine \<Rightarrow> py_exception + engine" where
  "start_capture hst now interface packet_filter w =
     (if is_running w then Inr (log_msg (Log WARNING ''Packet capture is already running'') w)
      else
        let iface = (case interface of
                       None \<Rightarrow> auto_select_interface hst
                     | Some i \<Rightarrow> if i = ''auto'' then auto_select_interface hst else i);
            w1 = log_msg (Log INFO (''Starting packet capture on interface: '' @ iface)) w;
            w2 = w1 \<lparr> is_running := True \<rparr>;
            w3 = w2 \<lparr> stats := (stats w2) \<lparr> start_time := Some now \<rparr> \<rparr>;
            w4 = w3 \<lparr> processor_thread := Some (Thread ProcessPackets True) \<rparr>;
            w5 = w4 \<lparr> capture_thread := Some (Thread (CapturePackets iface packet_filter) True) \<rparr>
        in Inr (log_msg (Log INFO ''Packet capture started successfully'') w5))"

text \<open>
  \<open>Thread.join(timeout=5)\<close> returns \<open>None\<close> whether the thread has ended or the five
  seconds have passed; \<open>exits\<close> is the host's answer to "does this thread end in time".
\<close>

definition join :: "(thread \<Rightarrow> bool) \<Rightarrow> thread option \<Rightarrow> unit" where
  "join exits th = (case th of None \<Rightarrow> () | Some t \<Rightarrow> (if exits t then () else ()))"

definition stop_capture :: "(thread \<Rightarrow> bool) \<Rightarrow> engine \<Rightarrow> py_exception + engine" where
  "stop_capture exits w =
     (if \<not> is_running w then Inr (log_msg (Log WARNING ''Packet capture is not running'') w)
      else
        let w1 = log_msg (Log INFO ''Stopping packet capture...'') w;
            w2 = w1 \<lparr> is_running := False \<rparr>;
            _ = join exits (capture_thread w2);
            _ = join exits (processor_thread w2)
        in Inr (log_msg (Log INFO ''Packet capture stopped'') w2))"

subsection \<open>The producer: \<open>_capture_packets\<close>\<close>

definition queue_full :: "packet list \<Rightarrow> bool" where
  "queue_full q \<longleftrightarrow> 0 < queue_maxsize \<and> queue_maxsize \<le> length q"

definition packet_handler :: "packet \<Rightarrow> engine \<Rightarrow> engine" where
  "packet_handler p w =
     (if \<not> is_running w then w
      else if \<not> queue_full (packet_queue w) then
        w \<lparr> packet_queue := packet_queue w @ [p],
            stats := (stats w) \<lparr> packets_captured := packets_captured (stats w) + 1,
                                 bytes_captured := bytes_captured (stats w) + pkt_len p \<rparr> \<rparr>
      else w \<lparr> stats := (stats w) \<lparr> packets_dropped := packets_dropped (stats w) + 1 \<rparr> \<rparr>)"

text \<open>
  scapy's \<open>sniff\<close> on the frames the source delivers: \<open>prn\<close> on each frame, then the
  \<open>stop_filter\<close>, which ends the capture once \<open>is_running\<close> is false.
\<close>

fun sniff :: "packet list \<Rightarrow> engine \<Rightarrow> engine" where
  "sniff [] w = w"
| "sniff (p # frames) w =
     (let w' = packet_handler p w in if \<not> is_running w' then w' else sniff frames w')"

definition capture_packets :: "host \<Rightarrow> string \<Rightarrow> packet list \<Rightarrow> engine \<Rightarrow> engine" where
  "capture_packets hst interface frames w =
     (if sniff_opens hst interface then sniff frames w
      else (log_msg (LogExc ERROR ''Error in packet capture: '' SniffError) w)
             \<lparr> is_running := False \<rparr>)"


subsection \<open>The consumer: \<open>_process_packets\<close> and what it calls\<close>

text \<open>
  What one pass of the consumer reads from outside the engine: the three readings of
  \<open>datetime.utcnow()\<close> (in \<open>_extract_packet_info\<close>, \<open>_update_flow_session\<close> and
  \<open>_cleanup_old_flows\<close>).
\<close>

record env =
  t_extract :: time
  t_update :: time
  t_sweep :: time

text \<open>
  Entering \<open>with get_db_session() as session:\<close>. \<open>get_db_session\<close>
  (database/connection.py) is a generator function without the \<open>@contextmanager\<close>
  decorator that the method \<open>DatabaseManager.get_session\<close> has. Calling it runs none
  of its body and returns a generator object; a generator object has no \<open>__enter__\<close>,
  so the \<open>with\<close> statement raises (\<open>TypeError\<close> from Python 3.11 on,
  \<open>AttributeError\<close> before) and its body never runs. \<open>Inr\<close> would be a session.
\<close>

definition enter_db_session :: "py_exception + unit" where
  "enter_db_session = Inl NotAContextManager"

definition total_seconds :: "int \<Rightarrow> rat" where
  "total_seconds d = of_int d / 1000000"

definition store_packet :: "env \<Rightarrow> packet_info \<Rightarrow> engine \<Rightarrow> engine" where
  "store_packet ev info w =
     (case enter_db_session of
        Inl e \<Rightarrow> log_msg (LogExc ERROR ''Error storing packet: '' e) w
      | Inr session \<Rightarrow>
        w \<lparr> packet_captures := packet_captures w @
              [\<lparr> pc_timestamp = pi_timestamp info,
                 pc_src_ip = pi_src_ip info, pc_dst_ip = pi_dst_ip info,
                 pc_src_port = pi_src_port info, pc_dst_port = pi_dst_port info,
                 pc_protocol = pi_protocol_name info,
                 pc_packet_size = pi_packet_size info,
                 pc_ttl = pi_ttl info, pc_flags = pi_flags info,
                 pc_payload_size = pi_payload_size info,
                 pc_interface = pi_interface info \<rparr>] \<rparr>)"

definition flow_record :: "flow \<Rightarrow> rat \<Rightarrow> flow_session" where
  "flow_record fl time_diff =
     \<lparr> fs_session_id = fl_session_id fl,
       fs_src_ip = fl_src_ip fl, fs_dst_ip = fl_dst_ip fl,
       fs_src_port = fl_src_port fl, fs_dst_port = fl_dst_port fl,
       fs_protocol = fl_protocol fl,
       fs_start_time = fl_start_time fl,
       fs_end_time = fl_last_seen fl,
       fs_duration = time_diff,
       fs_packet_count = fl_packet_count fl,
       fs_bytes_transferred = fl_bytes_transferred fl,
       fs_status = ''timeout'' \<rparr>"

text \<open>
  The first loop of \<open>_cleanup_old_flows\<close>, over the items of the table as they were when
  the loop began; the pair carries \<open>flows_to_remove\<close> and the engine. The key is put on
  \<open>flows_to_remove\<close> before the \<open>try\<close>, so it is removed whether the row is stored
  or not.
\<close>

fun cleanup_scan ::
  "env \<Rightarrow> (string \<times> flow) list \<Rightarrow> string list \<times> engine \<Rightarrow> string list \<times> engine" where
  "cleanup_scan ev [] acc = acc"
| "cleanup_scan ev ((flow_id, fl) # items) (flows_to_remove, w) =
     (let time_diff = total_seconds (t_sweep ev - fl_last_seen fl) in
      if time_diff > of_nat (flow_timeout w) then
        cleanup_scan ev items
          (flows_to_remove @ [flow_id],
           case enter_db_session of
             Inl e \<Rightarrow> log_msg (LogExc ERROR ''Error storing flow session: '' e) w
           | Inr session \<Rightarrow>
               w \<lparr> flow_sessions := flow_sessions w @ [flow_record fl time_diff] \<rparr>)
      else cleanup_scan ev items (flows_to_remove, w))"

definition cleanup_old_flows :: "env \<Rightarrow> engine \<Rightarrow> engine" where
  "cleanup_old_flows ev w =
     (let (flows_to_remove, w') = cleanup_scan ev (active_flows w) ([], w)
      in w' \<lparr> active_flows := fold AList.delete flows_to_remove (active_flows w') \<rparr>)"

definition new_flow :: "string \<Rightarrow> time \<Rightarrow> packet_info \<Rightarrow> flow" where
  "new_flow flow_id current_time info =
     \<lparr> fl_session_id = flow_id,
       fl_src_ip = pi_src_ip info, fl_dst_ip = pi_dst_ip info,
       fl_src_port = pi_src_port info, fl_dst_port = pi_dst_port info,
       fl_protocol = pi_protocol_name info,
       fl_start_time = current_time, fl_last_seen = current_time,
       fl_packet_count = 1,
       fl_bytes_transferred = pi_packet_size info,
       fl_status = ''active'' \<rparr>"

text \<open>The \<open>if flow_id in self.active_flows ... else ...\<close> of \<open>_update_flow_session\<close>.\<close>

definition touch_flow :: "string \<Rightarrow> time \<Rightarrow> packet_info \<Rightarrow> engine \<Rightarrow> engine" where
  "touch_flow flow_id current_time info w =
     (case map_of (active_flows w) flow_id of
        Some fl \<Rightarrow>
          w \<lparr> active_flows := AList.update flow_id
                 (fl \<lparr> fl_last_seen := current_time,
                       fl_packet_count := fl_packet_count fl + 1,
                       fl_bytes_transferred := fl_bytes_transferred fl + pi_packet_size info \<rparr>)
                 (active_flows w) \<rparr>
      | None \<Rightarrow>
          w \<lparr> active_flows := AList.update flow_id (new_flow flow_id current_time info)
                 (active_flows w) \<rparr>)"

text \<open>
  \<open>_update_flow_session\<close>: an exception of \<open>_create_flow_id\<close> leaves the \<open>try\<close> before
  the table is touched and before the sweep, and the handler only logs it.
\<close>

definition update_flow_session :: "(string \<Rightarrow> string) \<Rightarrow> env \<Rightarrow> packet_info \<Rightarrow> engine \<Rightarrow> engine" where
  "update_flow_session md5 ev info w =
     (case create_flow_id md5 info of
        Inl e \<Rightarrow> log_msg (LogExc ERROR ''Error updating flow session: '' e) w
      | Inr flow_id \<Rightarrow> cleanup_old_flows ev (touch_flow flow_id (t_update ev) info w))"

definition analyze_packet :: "(string \<Rightarrow> string) \<Rightarrow> env \<Rightarrow> packet \<Rightarrow> engine \<Rightarrow> engine" where
  "analyze_packet md5 ev p w =
     (case extract_packet_info (t_extract ev) p of
        None \<Rightarrow> w
      | Some info \<Rightarrow> update_flow_session md5 ev info (store_packet ev info w))"

text \<open>
  One pass of the \<open>while\<close> loop of \<open>_process_packets\<close>: a packet is taken from the
  queue, analysed and counted, or the thread sleeps.
\<close>

definition process_packets_pass :: "(string \<Rightarrow> string) \<Rightarrow> env \<Rightarrow> engine \<Rightarrow> engine" where
  "process_packets_pass md5 ev w =
     (case packet_queue w of
        [] \<Rightarrow> w
      | p # rest \<Rightarrow>
          (let w1 = analyze_packet md5 ev p (w \<lparr> packet_queue := rest \<rparr>)
           in w1 \<lparr> stats := (stats w1) \<lparr> packets_processed := packets_processed (stats w1) + 1 \<rparr> \<rparr>))"

text \<open>
  The loop itself, run after the producer has ended: it goes on while the engine runs or
  the queue holds a packet, reading the \<open>i\<close>-th environment in its \<open>i\<close>-th pass. While
  \<open>is_running\<close> stays true it never returns.
\<close>

partial_function (option) process_packets ::
  "(string \<Rightarrow> string) \<Rightarrow> (nat \<Rightarrow> env) \<Rightarrow> nat \<Rightarrow> engine \<Rightarrow> engine option" where
  "process_packets md5 evs i w =
     (if is_running w \<or> packet_queue w \<noteq> []
      then process_packets md5 evs (Suc i) (process_packets_pass md5 (evs i) w)
      else Some w)"

subsection \<open>Statistics\<close>

text \<open>
  The dict that \<open>get_statistics\<close> returns. A key that the dict may lack is an \<open>option\<close>
  field: \<open>None\<close> is "no such key".
\<close>

record snapshot =
  sn_packets_captured :: nat
  sn_packets_processed :: nat
  sn_packets_dropped :: nat
  sn_bytes_captured :: nat
  sn_start_time :: "time option"
  sn_active_flows :: nat
  sn_queue_size :: nat
  sn_runtime_seconds :: "rat option"
  sn_packets_per_second :: "rat option"

definition get_statistics :: "time \<Rightarrow> engine \<Rightarrow> snapshot" where
  "get_statistics now w =
     (let st = stats w;
          base = \<lparr> sn_packets_captured = packets_captured st,
                   sn_packets_processed = packets_processed st,
                   sn_packets_dropped = packets_dropped st,
                   sn_bytes_captured = bytes_captured st,
                   sn_start_time = start_time st,
                   sn_active_flows = length (active_flows w),
                   sn_queue_size = length (packet_queue w),
                   sn_runtime_seconds = None,
                   sn_packets_per_second = None \<rparr>
      in case start_time st of
           None \<Rightarrow> base
         | Some t0 \<Rightarrow>
             (let runtime = total_seconds (now - t0)
              in base \<lparr> sn_runtime_seconds := Some runtime,
                        sn_packets_per_second :=
                          Some (if runtime > 0 then of_nat (packets_captured st) / runtime else 0) \<rparr>))"


subsection \<open>Runs of the two workers\<close>

text \<open>
  The producer and the consumer share the queue and the counters. A run interleaves
  whole calls of \<open>packet_handler\<close> with whole passes of the consumer loop, and with
  calls of \<open>start_capture\<close> and \<open>stop_capture\<close> from outside; the state between
  two of them is a quiescent snapshot.
\<close>

datatype action =
    Frame packet
  | Pass env
  | Start host time "string option" "string option"
  | Stop "thread \<Rightarrow> bool"

definition act :: "(string \<Rightarrow> string) \<Rightarrow> action \<Rightarrow> engine \<Rightarrow> engine" where
  "act md5 a w =
     (case a of
        Frame p \<Rightarrow> packet_handler p w
      | Pass ev \<Rightarrow> process_packets_pass md5 ev w
      | Start hst now interface packet_filter \<Rightarrow>
          (case start_capture hst now interface packet_filter w of Inl _ \<Rightarrow> w | Inr w' \<Rightarrow> w')
      | Stop exits \<Rightarrow> (case stop_capture exits w of Inl _ \<Rightarrow> w | Inr w' \<Rightarrow> w'))"

fun run :: "(string \<Rightarrow> string) \<Rightarrow> action list \<Rightarrow> engine \<Rightarrow> engine" where
  "run md5 [] w = w"
| "run md5 (a # acts) w = run md5 acts (act md5 a w)"

text \<open>A burst: frames arrive one after the other and the consumer takes none.\<close>

definition burst :: "packet list \<Rightarrow> engine \<Rightarrow> engine" where
  "burst frames w = fold packet_handler frames w"

text \<open>The engine right after a first \<open>start_capture\<close>.\<close>

definition started :: "host \<Rightarrow> time \<Rightarrow> string option \<Rightarrow> string option \<Rightarrow> engine" where
  "started hst now interface packet_filter =
     (case start_capture hst now interface packet_filter init_engine of
        Inl _ \<Rightarrow> init_engine | Inr w \<Rightarrow> w)"

subsection \<open>Runs of the flow tracker\<close>









definition expired :: "env \<Rightarrow> engine \<Rightarrow> flow \<Rightarrow> bool" where
  "expired ev w fl \<longleftrightarrow> total_seconds (t_sweep ev - fl_last_seen fl) > of_nat (flow_timeout w)"


text \<open>What one sweep evicts and logs, read off a table \<open>items\<close>.\<close>

definition sweep_keys :: "env \<Rightarrow> engine \<Rightarrow> (string \<times> flow) list \<Rightarrow> string list" where
  "sweep_keys ev w items = map fst (filter (\<lambda>(k, fl). expired ev w fl) items)"

definition sweep_errors :: "env \<Rightarrow> engine \<Rightarrow> (string \<times> flow) list \<Rightarrow> log_entry list" where
  "sweep_errors ev w items =
     map (\<lambda>_. LogExc ERROR ''Error storing flow session: '' NotAContextManager)
       (filter (\<lambda>(k, fl). expired ev w fl) items)"

text \<open>The counters agree with the queue, and the queue is within its capacity.\<close>

definition balanced :: "engine \<Rightarrow> bool" where
  "balanced w \<longleftrightarrow>
     packets_processed (stats w) + length (packet_queue w) = packets_captured (stats w) \<and>
     length (packet_queue w) \<le> queue_maxsize"

subsection \<open>Concrete inputs\<close>

text \<open>
  A host with a loopback and one Ethernet interface, a host without interfaces, and a
  few frames and packet records; times are microseconds.
\<close>

definition lab_host :: host where
  "lab_host = \<lparr> get_if_list = Some [''lo'', ''eth0''],
                net_if_stats = (\<lambda>i. if i = ''eth0'' then IfStats True else NoStats),
                sniff_opens = (\<lambda>i. i = ''eth0'') \<rparr>"

definition bare_host :: host where
  "bare_host = \<lparr> get_if_list = Some [], net_if_stats = (\<lambda>i. NoStats),
                 sniff_opens = (\<lambda>i. False) \<rparr>"

definition never_exits :: "thread \<Rightarrow> bool" where
  "never_exits t = False"

definition tcp_frame :: packet where
  "tcp_frame = \<lparr> pkt_len = 64, pkt_sniffed_on = Some ''eth0'', pkt_ether = None,
                 pkt_ip = Some \<lparr> ip_src = ''10.0.0.1'', ip_dst = ''10.0.0.2'', ip_proto = 6,
                                  ip_ttl = 64, ip_payload_len = 44 \<rparr>,
                 pkt_ipv6 = None, pkt_tcp = Some (1234, 80, ''S''), pkt_udp = None,
                 pkt_icmp = False \<rparr>"

definition ping_frame :: packet where
  "ping_frame = \<lparr> pkt_len = 84, pkt_sniffed_on = Some ''lo'', pkt_ether = None,
                  pkt_ip = Some \<lparr> ip_src = ''127.0.0.1'', ip_dst = ''127.0.0.1'', ip_proto = 1,
                                   ip_ttl = 64, ip_payload_len = 64 \<rparr>,
                  pkt_ipv6 = None, pkt_tcp = None, pkt_udp = None, pkt_icmp = True \<rparr>"

definition loop_ping :: packet_info where
  "loop_ping = \<lparr> pi_timestamp = 0, pi_packet_size = 84, pi_interface = ''lo'',
                 pi_src_mac = None, pi_dst_mac = None,
                 pi_src_ip = ''127.0.0.1'', pi_dst_ip = ''127.0.0.1'',
                 pi_protocol = 1, pi_ttl = 64, pi_payload_size = 64,
                 pi_src_port = None, pi_dst_port = None,
                 pi_protocol_name = ''ICMP'', pi_flags = [] \<rparr>"

definition loop_pong :: packet_info where
  "loop_pong = loop_ping \<lparr> pi_timestamp := 150 \<rparr>"



text \<open>An environment in which all three clock readings are \<open>t\<close>.\<close>

definition at_time :: "time \<Rightarrow> env" where
  "at_time t = \<lparr> t_extract = t, t_update = t, t_sweep = t \<rparr>"

text \<open>The engine started on \<open>eth0\<close> at time 0, and after a burst of 10001 frames.\<close>

definition running_engine :: engine where
  "running_engine = started lab_host 0 (Some ''eth0'') None"

definition flooded :: engine where
  "flooded = burst (replicate 10001 tcp_frame) running_engine"






section \<open>Properties\<close>

declare str_nat.simps [simp del]

subsection \<open>Interface selection\<close>

lemma first_active_find:
  "first_active probe ifs =
     find (\<lambda>i. i \<notin> set loopback_names \<and> probe i = IfStats True) ifs"
  by (induction ifs) (auto split: if_probe.splits)

lemma first_non_loopback_find:
  "first_non_loopback ifs = find (\<lambda>i. i \<notin> set loopback_names) ifs"
  by (induction ifs) auto

text \<open>
  Claim C6, as the code has it. \<open>auto_select_interface\<close> returns the first interface
  that is not a loopback name and is reported up; if there is none, the first interface
  that is not a loopback name; if there is none, the first entry of the list; and when
  the list is empty it returns the name \<open>eth0\<close>. It raises nothing on any path.
\<close>

theorem auto_select_interface_order:
  "auto_select_interface hst =
     (let ifs = get_available_interfaces hst in
      case find (\<lambda>i. i \<notin> set loopback_names \<and> net_if_stats hst i = IfStats True) ifs of
        Some i \<Rightarrow> i
      | None \<Rightarrow>
         (case find (\<lambda>i. i \<notin> set loopback_names) ifs of
            Some i \<Rightarrow> i
          | None \<Rightarrow> (case ifs of [] \<Rightarrow> ''eth0'' | i # _ \<Rightarrow> i)))"
  unfolding auto_select_interface_def first_active_find first_non_loopback_find ..

text \<open>
  Claim C6 as stated fails where the interface list is empty: the call returns \<open>eth0\<close>
  instead of failing.
\<close>

theorem auto_select_no_interfaces:
  "get_available_interfaces bare_host = [] \<and> auto_select_interface bare_host = ''eth0''"
  by (simp add: auto_select_interface_def get_available_interfaces_def bare_host_def)

subsection \<open>Flow identifiers\<close>

lemma create_flow_id_symmetric:
  assumes "opposite_directions p q"
  shows "create_flow_id md5 q = create_flow_id md5 p"
  using assms
  by (auto simp: opposite_directions_def create_flow_id_def port_less_def Let_def
      split: option.splits)

lemma create_flow_id_returns:
  assumes "pi_src_ip info \<noteq> pi_dst_ip info \<or>
           (pi_src_port info \<noteq> None \<and> pi_dst_port info \<noteq> None)"
  shows "\<exists>k. create_flow_id md5 info = Inr k"
  using assms by (auto simp: create_flow_id_def port_less_def Let_def)

lemma create_flow_id_portless:
  assumes "pi_src_port info = None" and "pi_src_ip info = pi_dst_ip info"
  shows "create_flow_id md5 info = Inl TypeError"
  using assms by (simp add: create_flow_id_def port_less_def)

text \<open>
  Claim C3 at a ping of the loopback address and its answer: the two records are the
  two directions of one conversation, and \<open>create_flow_id\<close> yields a key for neither,
  because the comparison of the two absent ports raises \<open>TypeError\<close>. (Wherever a key
  is computed for one direction the same key is computed for the other:
  \<open>create_flow_id_symmetric\<close>, \<open>create_flow_id_returns\<close>.)
\<close>

theorem create_flow_id_loopback_ping:
  "opposite_directions loop_ping loop_pong \<and>
   create_flow_id md5 loop_ping = Inl TypeError \<and>
   create_flow_id md5 loop_pong = Inl TypeError"
  by (simp add: opposite_directions_def loop_ping_def loop_pong_def create_flow_id_def
      port_less_def)

subsection \<open>Start and stop\<close>

lemma started_eq:
  "i \<noteq> ''auto'' \<Longrightarrow>
   started hst now (Some i) pf =
     init_engine \<lparr> is_running := True,
                   capture_thread := Some (Thread (CapturePackets i pf) True),
                   processor_thread := Some (Thread ProcessPackets True),
                   stats := (stats init_engine) \<lparr> start_time := Some now \<rparr>,
                   logged := [Log INFO (''Starting packet capture on interface: '' @ i),
                              Log INFO ''Packet capture started successfully''] \<rparr>"
  by (simp add: started_def start_capture_def init_engine_def log_msg_def Let_def)

lemma running_engine_fields:
  "is_running running_engine"
  "packet_queue running_engine = []"
  "packets_captured (stats running_engine) = 0"
  "packets_processed (stats running_engine) = 0"
  "packets_dropped (stats running_engine) = 0"
  by (simp_all add: running_engine_def started_eq init_engine_def)

text \<open>
  Claim C5, as the code has it. When capture is already active, \<open>start_capture\<close>
  returns normally: it logs the warning "Packet capture is already running" and leaves
  every field of the engine (running flag, threads, queue, statistics, flow table) as
  it was. No exception is raised.
\<close>

theorem start_capture_already_running:
  assumes "is_running w"
  shows "start_capture hst now interface packet_filter w =
           Inr (w \<lparr> logged := logged w @ [Log WARNING ''Packet capture is already running''] \<rparr>)"
  using assms by (simp add: start_capture_def log_msg_def)

theorem start_capture_already_running_witness:
  "is_running running_engine \<and>
   start_capture lab_host 5 (Some ''eth0'') None running_engine =
     Inr (running_engine \<lparr> logged := logged running_engine @
            [Log WARNING ''Packet capture is already running''] \<rparr>)"
proof -
  have h: "is_running running_engine"
    by (rule running_engine_fields)
  show ?thesis
    using h start_capture_already_running [OF h, of lab_host 5 "Some ''eth0''" None] by simp
qed

text \<open>
  Claim C5 as stated fails: a second \<open>start_capture\<close> on the running engine does not
  fail, it returns.
\<close>

theorem start_capture_twice:
  "is_running running_engine \<and>
   \<not> isl (start_capture lab_host 5 (Some ''eth0'') None running_engine)"
  by (simp add: running_engine_fields start_capture_def)

text \<open>
  Claim C4, as the code has it. When the capture source cannot be opened,
  \<open>start_capture\<close> on a stopped engine still returns normally, with \<open>is_running\<close> set
  and both worker threads spawned. The failure shows only later, inside the capture
  thread: \<open>capture_packets\<close> catches it, logs an error and sets \<open>is_running\<close> back to
  false. Nothing is raised to the caller of \<open>start_capture\<close>.
\<close>

theorem start_capture_unopenable:
  assumes "\<not> is_running w" and "\<not> sniff_opens hst i" and "i \<noteq> ''auto''"
  shows "\<exists>w'. start_capture hst now (Some i) pf w = Inr w' \<and>
           is_running w' \<and>
           processor_thread w' = Some (Thread ProcessPackets True) \<and>
           capture_thread w' = Some (Thread (CapturePackets i pf) True) \<and>
           \<not> is_running (capture_packets hst i frames w') \<and>
           logged (capture_packets hst i frames w') =
             logged w' @ [LogExc ERROR ''Error in packet capture: '' SniffError]"
  using assms by (simp add: start_capture_def capture_packets_def log_msg_def Let_def)

theorem start_capture_unopenable_witness:
  "\<not> is_running init_engine \<and> \<not> sniff_opens lab_host ''nope0'' \<and> ''nope0'' \<noteq> ''auto'' \<and>
   (\<exists>w'. start_capture lab_host 0 (Some ''nope0'') None init_engine = Inr w' \<and>
      is_running w' \<and>
      processor_thread w' = Some (Thread ProcessPackets True) \<and>
      capture_thread w' = Some (Thread (CapturePackets ''nope0'' None) True) \<and>
      \<not> is_running (capture_packets lab_host ''nope0'' [tcp_frame] w') \<and>
      logged (capture_packets lab_host ''nope0'' [tcp_frame] w') =
        logged w' @ [LogExc ERROR ''Error in packet capture: '' SniffError])"
proof -
  have h1: "\<not> is_running init_engine" by (simp add: init_engine_def)
  have h2: "\<not> sniff_opens lab_host ''nope0''" by (simp add: lab_host_def)
  have h3: "''nope0'' \<noteq> ''auto''" by simp
  show ?thesis
    using h1 h2 start_capture_unopenable [OF h1 h2 h3, of 0 None "[tcp_frame]"] by simp
qed

text \<open>
  Claim C4 as stated fails: on an interface that cannot be opened, \<open>start_capture\<close>
  returns, the engine is running and both threads exist.
\<close>

theorem start_capture_bad_interface:
  "\<not> sniff_opens lab_host ''nope0'' \<and>
   start_capture lab_host 0 (Some ''nope0'') None init_engine =
     Inr (started lab_host 0 (Some ''nope0'') None) \<and>
   is_running (started lab_host 0 (Some ''nope0'') None) \<and>
   capture_thread (started lab_host 0 (Some ''nope0'') None) =
     Some (Thread (CapturePackets ''nope0'' None) True) \<and>
   processor_thread (started lab_host 0 (Some ''nope0'') None) =
     Some (Thread ProcessPackets True)"
  by (simp add: started_eq)
     (simp add: lab_host_def start_capture_def init_engine_def log_msg_def Let_def)

text \<open>
  Claim C9, as the code has it. \<open>stop_capture\<close> on a running engine clears the
  running flag, joins each worker thread with a timeout of five seconds, and then
  returns normally with the log line "Packet capture stopped", whether the workers have
  ended or not: the outcome of neither join is looked at, and no fault is reported.
\<close>

theorem stop_capture_ignores_workers:
  assumes "is_running w"
  shows "stop_capture exits w =
           Inr (w \<lparr> is_running := False,
                    logged := logged w @ [Log INFO ''Stopping packet capture...'',
                                          Log INFO ''Packet capture stopped''] \<rparr>)"
  using assms by (simp add: stop_capture_def log_msg_def Let_def)

theorem stop_capture_ignores_workers_witness:
  "is_running running_engine \<and>
   stop_capture (\<lambda>t. target t = ProcessPackets) running_engine =
     Inr (running_engine \<lparr> is_running := False,
            logged := logged running_engine @ [Log INFO ''Stopping packet capture...'',
                                               Log INFO ''Packet capture stopped''] \<rparr>)"
proof -
  have h: "is_running running_engine"
    by (rule running_engine_fields)
  show ?thesis
    using h stop_capture_ignores_workers [OF h, of "\<lambda>t. target t = ProcessPackets"] by simp
qed

text \<open>
  Claim C9 as stated fails: with two workers that never end, \<open>stop_capture\<close> returns
  as an ordinary stop and the last thing it logs is the line "Packet capture stopped".
\<close>

theorem stop_capture_leaked_worker:
  "\<not> never_exits (Thread ProcessPackets True) \<and>
   \<not> never_exits (Thread (CapturePackets ''eth0'' None) True) \<and>
   \<not> isl (stop_capture never_exits running_engine) \<and>
   last (logged (projr (stop_capture never_exits running_engine))) =
     Log INFO ''Packet capture stopped''"
  by (simp add: never_exits_def stop_capture_def running_engine_fields log_msg_def Let_def)

subsection \<open>Statistics\<close>

lemma packet_handler_start_time:
  "start_time (stats (packet_handler p w)) = start_time (stats w)"
  by (simp add: packet_handler_def)

lemma burst_start_time: "start_time (stats (burst frames w)) = start_time (stats w)"
  unfolding burst_def
  by (induction frames arbitrary: w) (simp_all add: packet_handler_start_time)

text \<open>
  Claim C8, as the code has it. The snapshot of \<open>get_statistics\<close> has the key
  \<open>packets_per_second\<close> only once the engine has been started (\<open>start_time\<close> is set);
  its value is then captured / elapsed seconds when the elapsed time is positive and 0
  otherwise. On an engine that was never started the snapshot has neither
  \<open>packets_per_second\<close> nor \<open>runtime_seconds\<close>.
\<close>

theorem get_statistics_rate:
  "(start_time (stats w) = None \<longrightarrow>
      sn_packets_per_second (get_statistics now w) = None \<and>
      sn_runtime_seconds (get_statistics now w) = None) \<and>
   (\<forall>t0. start_time (stats w) = Some t0 \<longrightarrow>
      sn_runtime_seconds (get_statistics now w) = Some (total_seconds (now - t0)) \<and>
      sn_packets_per_second (get_statistics now w) =
        Some (if total_seconds (now - t0) > 0
              then of_nat (packets_captured (stats w)) / total_seconds (now - t0)
              else 0))"
  by (simp add: get_statistics_def Let_def)

theorem get_statistics_rate_witness:
  "start_time (stats init_engine) = None \<and>
   sn_packets_per_second (get_statistics 7000000 init_engine) = None \<and>
   start_time (stats flooded) = Some 0 \<and>
   sn_packets_per_second (get_statistics 4000000 flooded) =
     Some (of_nat (packets_captured (stats flooded)) / 4) \<and>
   sn_packets_per_second (get_statistics 0 flooded) = Some 0"
proof -
  have h2: "start_time (stats flooded) = Some 0"
    by (simp add: flooded_def burst_start_time running_engine_def started_eq)
  have h1: "start_time (stats init_engine) = None"
    by (simp add: init_engine_def)
  show ?thesis
    using h1 h2 get_statistics_rate [of init_engine 7000000]
      get_statistics_rate [of flooded 4000000] get_statistics_rate [of flooded 0]
    by (simp add: total_seconds_def)
qed

text \<open>
  Claim C8 as stated fails on an engine that was never started: the snapshot has no
  \<open>packets_per_second\<close>.
\<close>

theorem statistics_never_started:
  "sn_packets_per_second (get_statistics 7000000 init_engine) = None"
  by (simp add: get_statistics_def init_engine_def)

subsection \<open>The sweep in closed form\<close>

lemma cleanup_scan_closed:
  "cleanup_scan ev items (rm, w) =
     (rm @ sweep_keys ev w items, w \<lparr> logged := logged w @ sweep_errors ev w items \<rparr>)"
proof (induction items arbitrary: rm w)
  case Nil
  then show ?case by (simp add: sweep_keys_def sweep_errors_def)
next
  case (Cons a items)
  obtain k fl where a: "a = (k, fl)" by (cases a)
  show ?case
    unfolding a
    by (simp add: Cons.IH Let_def log_msg_def sweep_keys_def sweep_errors_def expired_def
        enter_db_session_def)
qed

lemma fold_delete_filter:
  "fold AList.delete ks tbl = filter (\<lambda>(k, v). k \<notin> set ks) tbl"
proof (induction ks arbitrary: tbl)
  case Nil
  then show ?case by simp
next
  case (Cons k ks)
  have "fold AList.delete (k # ks) tbl =
          filter (\<lambda>(k', v). k' \<notin> set ks) (AList.delete k tbl)"
    by (simp add: Cons.IH)
  also have "\<dots> = filter (\<lambda>(k', v). k' \<notin> set (k # ks)) tbl"
    unfolding AList.delete_eq by (auto intro: filter_cong)
  finally show ?case .
qed

lemma cleanup_old_flows_closed:
  "cleanup_old_flows ev w =
     w \<lparr> logged := logged w @ sweep_errors ev w (active_flows w),
         active_flows :=
           filter (\<lambda>(k, v). k \<notin> set (sweep_keys ev w (active_flows w))) (active_flows w) \<rparr>"
  by (simp add: cleanup_old_flows_def cleanup_scan_closed fold_delete_filter)


subsection \<open>Queue and counters\<close>

lemma analyze_packet_queue_stats:
  "packet_queue (analyze_packet md5 ev p w) = packet_queue w \<and>
   stats (analyze_packet md5 ev p w) = stats w \<and>
   is_running (analyze_packet md5 ev p w) = is_running w"
  by (simp add: analyze_packet_def update_flow_session_def store_packet_def touch_flow_def
      cleanup_old_flows_closed log_msg_def enter_db_session_def split: option.splits sum.splits)

text \<open>
  Once the engine is stopped the consumer loop returns: it takes the packets left on the
  queue, one per pass, and counts each of them.
\<close>

lemma process_packets_pass_step:
  assumes "packet_queue w = p # rest"
  shows "packet_queue (process_packets_pass md5 ev w) = rest"
    and "packets_processed (stats (process_packets_pass md5 ev w)) = packets_processed (stats w) + 1"
    and "is_running (process_packets_pass md5 ev w) = is_running w"
  using assms
  by (simp_all add: process_packets_pass_def analyze_packet_queue_stats)

lemma process_packets_drains:
  assumes "\<not> is_running w"
  shows "\<exists>w'. process_packets md5 evs i w = Some w' \<and> packet_queue w' = [] \<and>
           packets_processed (stats w') = packets_processed (stats w) + length (packet_queue w)"
  using assms
proof (induction "length (packet_queue w)" arbitrary: w i)
  case 0
  then show ?case
    by (subst process_packets.simps) simp
next
  case (Suc n)
  then obtain p rest where q: "packet_queue w = p # rest"
    by (cases "packet_queue w") simp_all
  let ?w1 = "process_packets_pass md5 (evs i) w"
  note st = process_packets_pass_step [OF q, of md5 "evs i"]
  have n: "n = length (packet_queue ?w1)"
    using Suc.hyps(2) q by (simp add: st)
  have stopped: "\<not> is_running ?w1"
    using Suc.prems by (simp add: st)
  from Suc.hyps(1) [OF n stopped, of "Suc i"]
  obtain w' where w': "process_packets md5 evs (Suc i) ?w1 = Some w'"
    "packet_queue w' = []"
    "packets_processed (stats w') = packets_processed (stats ?w1) + length (packet_queue ?w1)"
    by blast
  have "process_packets md5 evs i w = process_packets md5 evs (Suc i) ?w1"
    by (subst process_packets.simps) (simp add: q)
  with w' show ?case
    by (simp add: st q)
qed

lemma balanced_packet_handler: "balanced w \<Longrightarrow> balanced (packet_handler p w)"
  by (auto simp: balanced_def packet_handler_def queue_full_def queue_maxsize_def)

lemma balanced_pass: "balanced w \<Longrightarrow> balanced (process_packets_pass md5 ev w)"
  by (auto simp: balanced_def process_packets_pass_def analyze_packet_queue_stats
      split: list.splits)

lemma balanced_start:
  "balanced w \<Longrightarrow> start_capture hst now interface pf w = Inr w' \<Longrightarrow> balanced w'"
  by (auto simp: balanced_def start_capture_def log_msg_def Let_def split: if_splits)

lemma balanced_stop: "balanced w \<Longrightarrow> stop_capture exits w = Inr w' \<Longrightarrow> balanced w'"
  by (auto simp: balanced_def stop_capture_def log_msg_def Let_def split: if_splits)

lemma balanced_act: "balanced w \<Longrightarrow> balanced (act md5 a w)"
  by (cases a)
     (auto simp: act_def balanced_packet_handler balanced_pass
       intro: balanced_start balanced_stop split: sum.splits)

lemma balanced_run: "balanced w \<Longrightarrow> balanced (run md5 acts w)"
  by (induction acts arbitrary: w) (simp_all add: balanced_act)

lemma started_fields:
  "is_running (started hst now interface pf)"
  "packet_queue (started hst now interface pf) = []"
  "packets_captured (stats (started hst now interface pf)) = 0"
  "packets_processed (stats (started hst now interface pf)) = 0"
  "packets_dropped (stats (started hst now interface pf)) = 0"
  by (simp_all add: started_def start_capture_def init_engine_def log_msg_def Let_def)

lemma burst_counts:
  assumes "is_running w" and "length (packet_queue w) \<le> queue_maxsize"
  shows "length (packet_queue (burst frames w)) =
           min queue_maxsize (length (packet_queue w) + length frames) \<and>
         packets_captured (stats (burst frames w)) =
           packets_captured (stats w) +
           (min queue_maxsize (length (packet_queue w) + length frames) - length (packet_queue w)) \<and>
         packets_dropped (stats (burst frames w)) =
           packets_dropped (stats w) + (length (packet_queue w) + length frames - queue_maxsize) \<and>
         packets_processed (stats (burst frames w)) = packets_processed (stats w)"
  using assms
proof (induction frames arbitrary: w)
  case Nil
  then show ?case by (simp add: burst_def)
next
  case (Cons p frames)
  have running: "is_running (packet_handler p w)"
    using Cons.prems by (simp add: packet_handler_def)
  have bound: "length (packet_queue (packet_handler p w)) \<le> queue_maxsize"
    using Cons.prems by (auto simp: packet_handler_def queue_full_def queue_maxsize_def)
  have step: "burst (p # frames) w = burst frames (packet_handler p w)"
    by (simp add: burst_def)
  show ?case
  proof (cases "queue_full (packet_queue w)")
    case True
    then have ph: "packet_handler p w =
        w \<lparr> stats := (stats w) \<lparr> packets_dropped := packets_dropped (stats w) + 1 \<rparr> \<rparr>"
      using Cons.prems by (simp add: packet_handler_def)
    show ?thesis
      unfolding step using Cons.IH[OF running bound] Cons.prems True
      by (simp add: ph queue_full_def queue_maxsize_def)
  next
    case False
    then have ph: "packet_handler p w =
        w \<lparr> packet_queue := packet_queue w @ [p],
            stats := (stats w) \<lparr> packets_captured := packets_captured (stats w) + 1,
                                 bytes_captured := bytes_captured (stats w) + pkt_len p \<rparr> \<rparr>"
      using Cons.prems by (simp add: packet_handler_def)
    show ?thesis
      unfolding step using Cons.IH[OF running bound] Cons.prems False
      by (simp add: ph queue_full_def queue_maxsize_def)
  qed
qed

lemma burst_fresh:
  "length (packet_queue (burst frames (started hst now interface pf))) =
     min queue_maxsize (length frames) \<and>
   packets_captured (stats (burst frames (started hst now interface pf))) =
     min queue_maxsize (length frames) \<and>
   packets_dropped (stats (burst frames (started hst now interface pf))) =
     length frames - queue_maxsize \<and>
   packets_processed (stats (burst frames (started hst now interface pf))) = 0"
  using burst_counts [of "started hst now interface pf" frames]
  by (simp add: started_fields)

text \<open>
  Claim C1, as the code has it. At any quiescent snapshot of an engine that was started
  from its initial state, processed + queueDepth = captured, and the queue is within its
  capacity: \<open>packets_captured\<close> counts the frames that were put on the queue, and a
  dropped frame is counted in \<open>packets_dropped\<close> only. In particular, after a burst of
  10001 frames with capacity 10000 and no consumption, dropped = 1 and captured = 10000.
\<close>

theorem stats_balance:
  "packets_processed (stats (run md5 acts (started hst now interface pf))) +
     length (packet_queue (run md5 acts (started hst now interface pf))) =
     packets_captured (stats (run md5 acts (started hst now interface pf))) \<and>
   length (packet_queue (run md5 acts (started hst now interface pf))) \<le> queue_maxsize \<and>
   (length frames = 10001 \<longrightarrow>
      packets_dropped (stats (burst frames (started hst now interface pf))) = 1 \<and>
      packets_captured (stats (burst frames (started hst now interface pf))) = 10000 \<and>
      length (packet_queue (burst frames (started hst now interface pf))) = 10000)"
proof -
  have "balanced (started hst now interface pf)"
    by (simp add: balanced_def started_fields)
  then have "balanced (run md5 acts (started hst now interface pf))"
    by (rule balanced_run)
  then show ?thesis
    using burst_fresh [of frames hst now interface pf]
    by (simp add: balanced_def queue_maxsize_def)
qed

theorem stats_balance_witness:
  "length (replicate 10001 ping_frame) = 10001 \<and>
   packets_dropped (stats (burst (replicate 10001 ping_frame) running_engine)) = 1 \<and>
   packets_captured (stats (burst (replicate 10001 ping_frame) running_engine)) = 10000 \<and>
   length (packet_queue (burst (replicate 10001 ping_frame) running_engine)) = 10000"
  using stats_balance [of id "[]" lab_host 0 "Some ''eth0''" None "replicate 10001 ping_frame"]
  by (simp add: running_engine_def)

text \<open>
  Claim C1 as stated fails after the burst of 10001 frames: captured is 10000, not
  10001, and dropped + processed + queueDepth is 10001, not captured.
\<close>

theorem burst_of_10001:
  "packets_captured (stats flooded) = 10000 \<and>
   packets_dropped (stats flooded) = 1 \<and>
   packets_processed (stats flooded) = 0 \<and>
   length (packet_queue flooded) = 10000 \<and>
   packets_dropped (stats flooded) + packets_processed (stats flooded) +
     length (packet_queue flooded) \<noteq> packets_captured (stats flooded)"
  using burst_fresh [of "replicate 10001 tcp_frame" lab_host 0 "Some ''eth0''" None]
  by (simp add: flooded_def running_engine_def queue_maxsize_def)

subsection \<open>The flow table\<close>





















subsection \<open>One call of \<open>update_flow_session\<close>, seen from one key\<close>







subsection \<open>The life of a flow\<close>










subsection \<open>What the idle sweep does with an idle flow\<close>




subsection \<open>Packets without ports\<close>

lemma extract_packet_info_ports:
  assumes "extract_packet_info t p = Some info"
  shows "(pi_src_port info = None \<longleftrightarrow> pi_dst_port info = None) \<and>
         (pi_src_port info = None \<longrightarrow> pi_protocol_name info \<in> {''ICMP'', ''OTHER''})"
  using assms
  by (auto simp: extract_packet_info_def Let_def split: option.splits if_splits prod.splits)

lemma store_packet_logs:
  "store_packet ev info w =
     w \<lparr> logged := logged w @ [LogExc ERROR ''Error storing packet: '' NotAContextManager] \<rparr>"
  by (simp add: store_packet_def enter_db_session_def log_msg_def)

text \<open>
  For every packet whose record has no ports and equal source and destination address,
  the analysis changes nothing but the log: the packet row is not stored, because the
  database session is never entered, and no flow is made or updated, because
  \<open>create_flow_id\<close> raises \<open>TypeError\<close>.
\<close>

lemma analyze_packet_portless:
  assumes "extract_packet_info (t_extract ev) p = Some info"
    and "pi_src_port info = None" and "pi_src_ip info = pi_dst_ip info"
  shows "create_flow_id md5 info = Inl TypeError"
    and "analyze_packet md5 ev p w =
           w \<lparr> logged := logged w @
                 [LogExc ERROR ''Error storing packet: '' NotAContextManager,
                  LogExc ERROR ''Error updating flow session: '' TypeError] \<rparr>"
proof -
  show key: "create_flow_id md5 info = Inl TypeError"
    using assms(2,3) by (rule create_flow_id_portless)
  show "analyze_packet md5 ev p w =
           w \<lparr> logged := logged w @
                 [LogExc ERROR ''Error storing packet: '' NotAContextManager,
                  LogExc ERROR ''Error updating flow session: '' TypeError] \<rparr>"
    using assms(1) key
    by (simp add: analyze_packet_def update_flow_session_def store_packet_logs log_msg_def)
qed

text \<open>
  Claim C10 at a ping of the loopback address. Its record has no ports and equal
  addresses; \<open>create_flow_id\<close> raises \<open>TypeError\<close>, \<open>update_flow_session\<close> only logs
  it, and no flow is made. But the packet's own record is not stored either: the
  analysis leaves the table of packet rows empty and adds two error lines to the log.
\<close>

theorem loopback_ping_analysis:
  "extract_packet_info 0 ping_frame = Some loop_ping \<and>
   pi_src_port loop_ping = None \<and> pi_dst_port loop_ping = None \<and>
   pi_src_ip loop_ping = pi_dst_ip loop_ping \<and>
   create_flow_id md5 loop_ping = Inl TypeError \<and>
   analyze_packet md5 (at_time 0) ping_frame running_engine =
     running_engine \<lparr> logged := logged running_engine @
       [LogExc ERROR ''Error storing packet: '' NotAContextManager,
        LogExc ERROR ''Error updating flow session: '' TypeError] \<rparr> \<and>
   active_flows (analyze_packet md5 (at_time 0) ping_frame running_engine) = [] \<and>
   packet_captures (analyze_packet md5 (at_time 0) ping_frame running_engine) = []"
proof -
  have h1: "extract_packet_info (t_extract (at_time 0)) ping_frame = Some loop_ping"
    by (simp add: extract_packet_info_def ping_frame_def loop_ping_def at_time_def)
  have h2: "pi_src_port loop_ping = None" by (simp add: loop_ping_def)
  have h3: "pi_src_ip loop_ping = pi_dst_ip loop_ping" by (simp add: loop_ping_def)
  have e: "active_flows running_engine = [] \<and> packet_captures running_engine = []"
    by (simp add: running_engine_def started_eq init_engine_def)
  show ?thesis
    using h1 e analyze_packet_portless(1) [OF h1 h2 h3, of md5]
      analyze_packet_portless(2) [OF h1 h2 h3, of md5 running_engine]
    by (simp add: at_time_def loop_ping_def)
qed

end
